theory Spec2Isabelle
  imports Complex_Main "HOL-Library.Word" "HOL-Library.List_Lexorder" "HOL-Library.Product_Lexorder"
begin

section \<open>Values of the questionnaire table\<close>

text \<open>
  A Python \<open>str\<close> is a sequence of Unicode code points, so a string is a list of code
  points (natural numbers), not of bytes: \<open>len\<close>, indexing, \<open>find\<close> and \<open>count\<close> all
  count code points, and \<open>isascii\<close> asks whether every code point is below 128.
\<close>

type_synonym codepoint = nat
type_synonym pystr = "codepoint list"

definition str_of :: "string \<Rightarrow> pystr" where
  "str_of cs = map of_char cs"

definition AT :: codepoint where
  "AT = 64"

definition DOT :: codepoint where
  "DOT = 46"

text \<open>
  A cell of the \<open>email\<close> column as \<open>pd.read_json\<close> delivers it: a string, \<open>None\<close> for a
  JSON \<open>null\<close>, or a float (a JSON number, or NaN, written \<open>PyNum None\<close>, where the
  record has no email at all).
\<close>

datatype pyval = PyStr pystr | PyNone | PyNum "rat option"

text \<open>The exceptions the modelled code can raise.\<close>

datatype error = TypeError | IndexError | IntCastingNaNError | ValueError

section \<open>String operations of Python used by the validator\<close>

definition startswith :: "pystr \<Rightarrow> codepoint \<Rightarrow> bool" where
  "startswith s c = (case s of [] \<Rightarrow> False | x # _ \<Rightarrow> x = c)"

definition endswith :: "pystr \<Rightarrow> codepoint \<Rightarrow> bool" where
  "endswith s c = (case rev s of [] \<Rightarrow> False | x # _ \<Rightarrow> x = c)"

definition isascii :: "pystr \<Rightarrow> bool" where
  "isascii s = list_all (\<lambda>c. c < 128) s"

text \<open>\<open>s.find(c)\<close>: the index of the first occurrence of \<open>c\<close>, or \<open>-1\<close>.\<close>

fun py_find :: "pystr \<Rightarrow> codepoint \<Rightarrow> int" where
  "py_find [] c = - 1"
| "py_find (x # xs) c =
     (if x = c then 0
      else (let k = py_find xs c in if k < 0 then - 1 else k + 1))"

text \<open>
  \<open>s[i]\<close>: a negative index counts from the end; an index outside the string raises
  \<open>IndexError\<close>.
\<close>

definition py_getitem :: "pystr \<Rightarrow> int \<Rightarrow> error + codepoint" where
  "py_getitem s i =
     (let j = (if i < 0 then i + int (length s) else i)
      in if j < 0 \<or> int (length s) \<le> j then Inl IndexError else Inr (s ! nat j))"

section \<open>The validator\<close>

text \<open>
  \<open>_validate_email\<close> (lines 59 to 84). The membership test \<open>"@" not in email\<close> of the
  first line raises \<open>TypeError\<close> when \<open>email\<close> is \<open>None\<close> or a number (neither is
  iterable); on a string every test is evaluated in the order of the source.
\<close>

definition validate_email :: "pyval \<Rightarrow> error + bool" where
  "validate_email email =
     (case email of
        PyStr s \<Rightarrow>
          if AT \<notin> set s \<or> DOT \<notin> set s then Inr False
          else if startswith s AT \<or> endswith s AT then Inr False
          else if startswith s DOT \<or> endswith s DOT then Inr False
          else if \<not> isascii s then Inr False
          else if count_list s AT \<noteq> 1 then Inr False
          else (case py_getitem s (py_find s AT + 1) of
                  Inl e \<Rightarrow> Inl e
                | Inr c \<Rightarrow> if c = DOT then Inr False else Inr True)
      | PyNone \<Rightarrow> Inl TypeError
      | PyNum _ \<Rightarrow> Inl TypeError)"

text \<open>
  The six conditions in the words of the specification, one conjunct each. Condition 6
  speaks of the character immediately following the \<open>@\<close>: no position holds an \<open>@\<close>
  with a \<open>.\<close> right after it.
\<close>

fun at_followed_by_dot :: "pystr \<Rightarrow> bool" where
  "at_followed_by_dot (x # y # zs) = ((x = AT \<and> y = DOT) \<or> at_followed_by_dot (y # zs))"
| "at_followed_by_dot _ = False"

definition is_valid_email_spec :: "pystr \<Rightarrow> bool" where
  "is_valid_email_spec s =
     ((AT \<in> set s \<and> DOT \<in> set s)
      \<and> (\<not> (s \<noteq> [] \<and> hd s = AT) \<and> \<not> (s \<noteq> [] \<and> last s = AT))
      \<and> (\<not> (s \<noteq> [] \<and> hd s = DOT) \<and> \<not> (s \<noteq> [] \<and> last s = DOT))
      \<and> list_all (\<lambda>c. c < 128) s
      \<and> count_list s AT = 1
      \<and> \<not> at_followed_by_dot s)"

section \<open>The table\<close>

text \<open>
  One row of the DataFrame \<open>self.data\<close>. A missing number (NaN) or a missing string is
  \<open>None\<close>. Numbers are rationals: every finite float is one, and the arithmetic of
  the model is exact (the rounding of float64 sums and quotients is not modelled).
  The \<open>score\<close> column does not exist until \<open>score_subjects\<close> adds it (\<open>NoColumn\<close>);
  afterwards a cell is \<open>pd.NA\<close> or a value of the nullable dtype \<open>UInt8\<close>.
\<close>

datatype score_cell = NoColumn | NA | UInt8 "8 word"

record subject =
  age :: "rat option"
  gender :: "pystr option"
  email :: pyval
  q1 :: "rat option"
  q2 :: "rat option"
  q3 :: "rat option"
  q4 :: "rat option"
  q5 :: "rat option"
  score :: score_cell

text \<open>
  The rows in order; the index is the default \<open>RangeIndex\<close>, so the label of a row is its
  position.
\<close>

type_synonym dataframe = "subject list"

section \<open>Operations of pandas used by the methods\<close>

definition isna :: "'a option \<Rightarrow> bool" where
  "isna c = (c = None)"

definition notnull :: "'a option \<Rightarrow> bool" where
  "notnull c = (c \<noteq> None)"

text \<open>\<open>.loc[:, "q1":"q5"]\<close> on one row: the five question cells, in column order.\<close>

definition grades :: "subject \<Rightarrow> rat option list" where
  "grades r = [q1 r, q2 r, q3 r, q4 r, q5 r]"

text \<open>The values of the cells that are not missing, in order.\<close>

fun present :: "'a option list \<Rightarrow> 'a list" where
  "present [] = []"
| "present (None # cs) = present cs"
| "present (Some v # cs) = v # present cs"

text \<open>
  \<open>.mean()\<close> with the default \<open>skipna=True\<close>: the mean of the values that are not
  missing, and NaN when there is none.
\<close>

definition nanmean :: "rat option list \<Rightarrow> rat option" where
  "nanmean cs =
     (let vs = present cs
      in if vs = [] then None else Some (sum_list vs / of_nat (length vs)))"

text \<open>
  \<open>frame.where(cond, other)\<close>: cell by cell, the cell of \<open>frame\<close> where \<open>cond\<close> holds and
  the cell of \<open>other\<close> where it does not.
\<close>

definition where_row :: "'a list \<Rightarrow> bool list \<Rightarrow> 'a list \<Rightarrow> 'a list" where
  "where_row xs cond other = map (\<lambda>(x, b, y). if b then x else y) (zip xs (zip cond other))"

definition df_where :: "'a list list \<Rightarrow> bool list list \<Rightarrow> 'a list list \<Rightarrow> 'a list list" where
  "df_where frame cond other =
     map (\<lambda>(xs, bs, ys). where_row xs bs ys) (zip frame (zip cond other))"

text \<open>
  \<open>series.apply(f)\<close>: \<open>f\<close> on each element in order; the first exception ends the call.
\<close>

fun series_apply :: "('a \<Rightarrow> error + 'b) \<Rightarrow> 'a list \<Rightarrow> error + 'b list" where
  "series_apply f [] = Inr []"
| "series_apply f (x # xs) =
     (case f x of
        Inl e \<Rightarrow> Inl e
      | Inr y \<Rightarrow> (case series_apply f xs of Inl e \<Rightarrow> Inl e | Inr ys \<Rightarrow> Inr (y # ys)))"

text \<open>Selection by a boolean mask: \<open>frame.loc[mask]\<close> and \<open>index[mask]\<close>.\<close>

definition select_mask :: "'a list \<Rightarrow> bool list \<Rightarrow> 'a list" where
  "select_mask xs bs = map fst (filter snd (zip xs bs))"

text \<open>
  \<open>frame.loc[:, "q1":"q5"] = other\<close> on one row: the five question cells are replaced,
  every other cell stays.
\<close>

definition set_grades :: "subject \<Rightarrow> rat option list \<Rightarrow> subject" where
  "set_grades r g =
     (case g of
        [a, b, c, d, e] \<Rightarrow> r\<lparr>q1 := a, q2 := b, q3 := c, q4 := d, q5 := e\<rparr>
      | _ \<Rightarrow> r)"

text \<open>
  The cast of a float to an integer in C, which numpy applies: the fraction is cut off
  (rounding toward zero).
\<close>

definition c_trunc :: "rat \<Rightarrow> int" where
  "c_trunc v = (if 0 \<le> v then \<lfloor>v\<rfloor> else \<lceil>v\<rceil>)"

text \<open>
  \<open>series.astype("uint8")\<close> on a float series. pandas checks the whole series before it
  casts: a NaN anywhere raises \<open>IntCastingNaNError\<close> (Cannot convert non-finite values
  (NA or inf) to integer), and for an unsigned target a negative value raises
  \<open>ValueError\<close> (Cannot losslessly cast; pandas 1.5 and later). Otherwise each value is
  cast as in C; a value of 256 or more does not fit, and the model takes the low eight
  bits there, as the cast does on the common platforms.
\<close>

definition astype_uint8 :: "rat option list \<Rightarrow> error + 8 word list" where
  "astype_uint8 xs =
     (if list_ex isna xs then Inl IntCastingNaNError
      else if list_ex (\<lambda>v. v < 0) (present xs) then Inl ValueError
      else Inr (map (\<lambda>v. word_of_int (c_trunc v)) (present xs)))"

section \<open>Objects\<close>

text \<open>
  DataFrames are mutable objects. The store maps a reference to the table it holds;
  \<open>next_ref\<close> is the first reference not yet in use, and \<open>self_data\<close> is the attribute
  \<open>self.data\<close> of the one \<open>QuestionnaireAnalysis\<close> object.
\<close>

type_synonym ref = nat

record world =
  frames :: "ref \<Rightarrow> dataframe"
  next_ref :: ref
  self_data :: ref

text \<open>\<open>frame.copy()\<close>: a new object with the same content.\<close>

definition df_copy :: "world \<Rightarrow> ref \<Rightarrow> ref \<times> world" where
  "df_copy w r =
     (next_ref w,
      w\<lparr>frames := (frames w)(next_ref w := frames w r), next_ref := Suc (next_ref w)\<rparr>)"

text \<open>\<open>frame.loc[:, "q1":"q5"] = other\<close>, in place on the object \<open>r\<close>.\<close>

definition loc_set_grades :: "world \<Rightarrow> ref \<Rightarrow> rat option list list \<Rightarrow> world" where
  "loc_set_grades w r other =
     w\<lparr>frames := (frames w)(r := map (\<lambda>(row, g). set_grades row g) (zip (frames w r) other))\<rparr>"

section \<open>The methods of \<open>QuestionnaireAnalysis\<close>\<close>

text \<open>
  A method takes the world and returns its result with the world it leaves; a method
  that can raise returns \<open>Inl\<close> of the exception instead.
\<close>

text \<open>\<open>remove_rows_without_mail\<close> (lines 45 to 57).\<close>

definition remove_rows_without_mail :: "world \<Rightarrow> error + (dataframe \<times> world)" where
  "remove_rows_without_mail w =
     (case series_apply validate_email (map email (frames w (self_data w))) of
        Inl e \<Rightarrow> Inl e
      | Inr valid_email \<Rightarrow> Inr (select_mask (frames w (self_data w)) valid_email, w))"

text \<open>\<open>_find_rows_with_nulls\<close> (lines 86 to 104).\<close>

definition find_rows_with_nulls :: "world \<Rightarrow> nat list \<times> world" where
  "find_rows_with_nulls w =
     (let relevant_columns = map grades (frames w (self_data w));
          has_nulls = map (list_ex isna) relevant_columns;
          null_rows = select_mask [0 ..< length has_nulls] has_nulls
      in (null_rows, w))"

text \<open>
  \<open>_fill_na_with_mean\<close> (lines 106 to 122). \<open>means_df\<close> has the row means in each of the
  five columns. The result is a table of the five question columns only.
\<close>

definition fill_na_with_mean_inner :: "world \<Rightarrow> rat option list list \<times> world" where
  "fill_na_with_mean_inner w =
     (let grades_df = map grades (frames w (self_data w));
          row_means = map nanmean grades_df;
          means_df = map (replicate 5) row_means;
          filled_df = df_where grades_df (map (map notnull) grades_df) means_df
      in (filled_df, w))"

text \<open>\<open>fill_na_with_mean\<close> (lines 126 to 141).\<close>

definition fill_na_with_mean :: "world \<Rightarrow> (ref \<times> nat list) \<times> world" where
  "fill_na_with_mean w =
     (let (null_rows, w1) = find_rows_with_nulls w;
          (filled_grades_df, w2) = fill_na_with_mean_inner w1;
          (updated_df, w3) = df_copy w2 (self_data w2);
          w4 = loc_set_grades w3 updated_df filled_grades_df
      in ((updated_df, null_rows), w4))"

text \<open>
  \<open>score_subjects\<close> (lines 143 to 170). The right-hand side of the first assignment is
  evaluated before \<open>self.data\<close> is touched, so an exception of the cast leaves no trace.
\<close>

definition score_subjects :: "int \<Rightarrow> world \<Rightarrow> error + (ref \<times> world)" where
  "score_subjects maximal_nans_per_sub w =
     (let question_columns = map grades (frames w (self_data w))
      in case astype_uint8 (map nanmean question_columns) of
           Inl e \<Rightarrow> Inl e
         | Inr u8 \<Rightarrow>
             (let scored = map (\<lambda>(row, v). row\<lparr>score := UInt8 v\<rparr>)
                             (zip (frames w (self_data w)) u8);
                  more_than_maximal_nans_row_indices =
                    map (\<lambda>g. maximal_nans_per_sub < int (length (filter isna g))) question_columns;
                  masked = map (\<lambda>(row, b). if b then row\<lparr>score := NA\<rparr> else row)
                             (zip scored more_than_maximal_nans_row_indices);
                  w' = w\<lparr>frames := (frames w)(self_data w := masked)\<rparr>
              in Inr (self_data w', w')))"

text \<open>
  \<open>correlate_gender_age\<close> (lines 172 to 184). \<open>dropna(subset=["age"])\<close> keeps the rows
  with an age. \<open>groupby\<close> takes the gender as it is and the age through \<open>x > 40\<close>; with
  its default \<open>dropna=True\<close> it leaves out a row whose key is missing, and with its
  default \<open>sort=True\<close> it orders the groups by key: strings by code point, a prefix
  first, then \<open>False\<close> before \<open>True\<close>, which is the order of the key type here. A
  comparison with NaN is false. The mean of a group skips the missing cells of a column
  and is NaN where the group has none.
\<close>

definition over_40 :: "rat option \<Rightarrow> bool" where
  "over_40 a = (case a of None \<Rightarrow> False | Some x \<Rightarrow> 40 < x)"

definition group_key :: "subject \<Rightarrow> (pystr \<times> bool) option" where
  "group_key r = (case gender r of None \<Rightarrow> None | Some g \<Rightarrow> Some (g, over_40 (age r)))"

definition group_means :: "dataframe \<Rightarrow> pystr \<times> bool \<Rightarrow> rat option list" where
  "group_means rows k =
     map (\<lambda>col. nanmean (map col (filter (\<lambda>r. group_key r = Some k) rows)))
       [q1, q2, q3, q4, q5]"

definition correlate_gender_age :: "world \<Rightarrow> ((pystr \<times> bool) \<times> rat option list) list \<times> world" where
  "correlate_gender_age w =
     (let df_with_age = filter (\<lambda>r. \<not> isna (age r)) (frames w (self_data w));
          keys = sort (remdups (present (map group_key df_with_age)));
          grouped = map (\<lambda>k. (k, group_means df_with_age k)) keys
      in (grouped, w))"

text \<open>
  The buckets as the specification words them for the aggregator: only a row with a
  missing age is left out, and every other row falls into the bucket of its pair of
  gender cell and \<open>age > 40\<close>, whatever the gender cell holds.
\<close>

definition buckets_spec :: "dataframe \<Rightarrow> (pystr option \<times> bool) list" where
  "buckets_spec df =
     remdups (map (\<lambda>r. (gender r, over_40 (age r))) (filter (\<lambda>r. age r \<noteq> None) df))"

section \<open>Sample tables\<close>

text \<open>
  A world with one table, held by \<open>self.data\<close>, and a row without a \<open>score\<close> column
  whose email is a string.
\<close>

abbreviation one_table :: "dataframe \<Rightarrow> world" where
  "one_table rows \<equiv> \<lparr>frames = (\<lambda>_. [])(0 := rows), next_ref = 1, self_data = 0\<rparr>"

abbreviation subject_row ::
  "rat option \<Rightarrow> string option \<Rightarrow> string \<Rightarrow> rat option \<Rightarrow> rat option \<Rightarrow> rat option
     \<Rightarrow> rat option \<Rightarrow> rat option \<Rightarrow> subject" where
  "subject_row a g e c1 c2 c3 c4 c5 \<equiv>
     \<lparr>age = a, gender = map_option str_of g, email = PyStr (str_of e),
      q1 = c1, q2 = c2, q3 = c3, q4 = c4, q5 = c5, score = NoColumn\<rparr>"

section \<open>The validator on strings\<close>

lemma py_find_first: "c \<notin> set pre \<Longrightarrow> py_find (pre @ c # post) c = int (length pre)"
  by (induction pre) (auto simp: Let_def)

lemma at_followed_by_dot_mem: "at_followed_by_dot s \<Longrightarrow> AT \<in> set s"
  by (induction s rule: at_followed_by_dot.induct) auto

lemma at_followed_by_dot_Cons:
  "at_followed_by_dot (x # s) = ((x = AT \<and> s \<noteq> [] \<and> hd s = DOT) \<or> at_followed_by_dot s)"
  by (cases s) auto

lemma at_followed_by_dot_split:
  "AT \<notin> set pre \<Longrightarrow> AT \<notin> set post \<Longrightarrow>
   at_followed_by_dot (pre @ AT # post) = (post \<noteq> [] \<and> hd post = DOT)"
proof (induction pre)
  case Nil
  then show ?case
    using at_followed_by_dot_mem [of post] by (auto simp: at_followed_by_dot_Cons)
next
  case (Cons x pre)
  then show ?case
    by (auto simp: at_followed_by_dot_Cons AT_def DOT_def)
qed

lemma count_list_one_split:
  assumes "count_list s c = 1"
  obtains pre post where "s = pre @ c # post" "c \<notin> set pre" "c \<notin> set post"
proof -
  from assms have "c \<in> set s"
    by (metis count_list_0_iff zero_neq_one)
  then obtain pre post where s: "s = pre @ c # post" and pre: "c \<notin> set pre"
    by (meson split_list_first)
  from assms s pre have "count_list post c = 0"
    by (simp add: count_list_0_iff [THEN iffD2])
  then have "c \<notin> set post"
    by (simp add: count_list_0_iff)
  with s pre that show thesis
    by blast
qed

lemma startswith_hd: "startswith s c = (s \<noteq> [] \<and> hd s = c)"
  by (cases s) (auto simp: startswith_def)

lemma endswith_last: "endswith s c = (s \<noteq> [] \<and> last s = c)"
  by (cases s rule: rev_cases) (auto simp: endswith_def)

text \<open>
  Where the validator reads the character after the \<open>@\<close>: with exactly one \<open>@\<close>, and
  not at the end, the index \<open>find("@") + 1\<close> is inside the string, and the character
  there is a \<open>.\<close> exactly when an \<open>@\<close> is followed by a \<open>.\<close> somewhere.
\<close>

lemma getitem_after_at:
  assumes "count_list s AT = 1" and "\<not> endswith s AT"
  shows "\<exists>c. py_getitem s (py_find s AT + 1) = Inr c \<and> (c = DOT \<longleftrightarrow> at_followed_by_dot s)"
proof -
  from assms(1) obtain pre post
    where s: "s = pre @ AT # post" and pre: "AT \<notin> set pre" and post: "AT \<notin> set post"
    by (rule count_list_one_split)
  from assms(2) s have ne: "post \<noteq> []"
    by (auto simp: endswith_last)
  have find: "py_find s AT = int (length pre)"
    using s pre by (simp add: py_find_first)
  have "py_getitem s (int (length pre) + 1) = Inr (hd post)"
    using ne s by (cases post) (auto simp: py_getitem_def nth_append Let_def)
  then have "py_getitem s (py_find s AT + 1) = Inr (hd post)"
    by (simp only: find)
  moreover have "at_followed_by_dot s = (hd post = DOT)"
    using s pre post ne by (simp add: at_followed_by_dot_split)
  ultimately show ?thesis
    by simp
qed

text \<open>On a string the validator never raises.\<close>

lemma validate_email_total:
  "validate_email (PyStr s) = Inr (validate_email (PyStr s) = Inr True)"
proof (cases "count_list s AT = 1 \<and> \<not> endswith s AT")
  case True
  then obtain c where "py_getitem s (py_find s AT + 1) = Inr c"
    using getitem_after_at by blast
  then show ?thesis
    by (simp add: validate_email_def)
next
  case False
  then show ?thesis
    by (auto simp: validate_email_def)
qed

text \<open>On anything else it raises \<open>TypeError\<close>.\<close>

lemma validate_email_not_str: "\<forall>s. v \<noteq> PyStr s \<Longrightarrow> validate_email v = Inl TypeError"
  by (cases v) (simp_all add: validate_email_def)

lemma validate_email_outcome:
  "validate_email v = Inl TypeError \<or> (\<exists>b. validate_email v = Inr b)"
proof (cases v)
  case (PyStr s)
  with validate_email_total [of s] show ?thesis
    by metis
qed (simp_all add: validate_email_def)

text \<open>
  Claim C1. For every string \<open>s\<close>, \<open>_validate_email\<close> returns (it raises nothing), and
  it returns \<open>True\<close> exactly when all six conditions of the specification hold: \<open>s\<close>
  contains an \<open>@\<close> and a \<open>.\<close>; it neither starts nor ends with \<open>@\<close>; it neither starts
  nor ends with \<open>.\<close>; all its characters are 7-bit; it contains exactly one \<open>@\<close>; and the
  character right after the \<open>@\<close> is not \<open>.\<close>.
\<close>

theorem validate_email_iff:
  "validate_email (PyStr s) = Inr (is_valid_email_spec s)"
proof (cases "count_list s AT = 1 \<and> \<not> endswith s AT")
  case False
  then show ?thesis
    by (auto simp: validate_email_def is_valid_email_spec_def startswith_hd endswith_last isascii_def)
next
  case True
  then obtain c where get: "py_getitem s (py_find s AT + 1) = Inr c"
    and dot: "c = DOT \<longleftrightarrow> at_followed_by_dot s"
    using getitem_after_at by blast
  show ?thesis
    unfolding validate_email_def is_valid_email_spec_def
    using True dot by (auto simp: get startswith_hd endswith_last isascii_def)
qed

theorem validate_email_iff_witness:
  "validate_email (PyStr (str_of ''ann@mail.com'')) = Inr True
   \<and> is_valid_email_spec (str_of ''ann@mail.com'')
   \<and> validate_email (PyStr (str_of ''ann@.com'')) = Inr False
   \<and> \<not> is_valid_email_spec (str_of ''ann@.com'')"
  using validate_email_iff [of "str_of ''ann@mail.com''"]
    validate_email_iff [of "str_of ''ann@.com''"]
  by (simp add: is_valid_email_spec_def str_of_def AT_def DOT_def)

section \<open>Removing the rows without a valid email\<close>

lemma series_apply_all_Inr:
  "\<forall>x \<in> set xs. f x = Inr (g x) \<Longrightarrow> series_apply f xs = Inr (map g xs)"
  by (induction xs) auto

lemma series_apply_raises:
  "\<exists>x \<in> set xs. f x = Inl e \<Longrightarrow> \<forall>x \<in> set xs. f x = Inl e \<or> (\<exists>y. f x = Inr y)
   \<Longrightarrow> series_apply f xs = Inl e"
proof (induction xs)
  case Nil
  then show ?case by simp
next
  case (Cons a xs)
  show ?case
  proof (cases "f a")
    case (Inl e')
    with Cons.prems(2) have "e' = e" by simp
    with Inl show ?thesis by simp
  next
    case (Inr y)
    with Cons.prems have "\<exists>x \<in> set xs. f x = Inl e"
      and "\<forall>x \<in> set xs. f x = Inl e \<or> (\<exists>y. f x = Inr y)" by auto
    then have "series_apply f xs = Inl e" by (rule Cons.IH)
    with Inr show ?thesis by simp
  qed
qed

lemma select_mask_map: "select_mask xs (map p xs) = filter p xs"
  by (induction xs) (auto simp: select_mask_def)

text \<open>
  Claim C6, as the code has it. \<open>_validate_email\<close> declares its parameter a \<open>str\<close>. On a
  table whose emails are all strings, validation raises nothing: each email is
  classified valid or invalid (the empty string is invalid), and
  \<open>remove_rows_without_mail\<close> returns exactly the rows with a valid email, in order,
  leaving \<open>self.data\<close> as it was. As soon as one email is \<open>None\<close> or a number the method
  raises \<open>TypeError\<close> instead of removing that row.
\<close>

theorem remove_rows_without_mail_strings:
  "((\<forall>r \<in> set (frames w (self_data w)). \<exists>s. email r = PyStr s) \<longrightarrow>
      remove_rows_without_mail w
        = Inr (filter (\<lambda>r. validate_email (email r) = Inr True) (frames w (self_data w)), w)
      \<and> (\<forall>r \<in> set (frames w (self_data w)). validate_email (email r) \<in> {Inr True, Inr False}))
   \<and> (\<not> (\<forall>r \<in> set (frames w (self_data w)). \<exists>s. email r = PyStr s) \<longrightarrow>
      remove_rows_without_mail w = Inl TypeError)
   \<and> validate_email (PyStr []) = Inr False"
proof (intro conjI impI)
  let ?df = "frames w (self_data w)"
  assume strs: "\<forall>r \<in> set ?df. \<exists>s. email r = PyStr s"
  then have "\<forall>v \<in> set (map email ?df). validate_email v = Inr (validate_email v = Inr True)"
    using validate_email_total by auto
  then have "series_apply validate_email (map email ?df)
      = Inr (map (\<lambda>v. validate_email v = Inr True) (map email ?df))"
    by (rule series_apply_all_Inr)
  moreover have "select_mask ?df (map (\<lambda>v. validate_email v = Inr True) (map email ?df))
      = filter (\<lambda>r. validate_email (email r) = Inr True) ?df"
    using select_mask_map [of ?df "\<lambda>r. validate_email (email r) = Inr True"]
    by (simp add: comp_def)
  ultimately show "remove_rows_without_mail w
        = Inr (filter (\<lambda>r. validate_email (email r) = Inr True) ?df, w)"
    by (simp add: remove_rows_without_mail_def)
  show "\<forall>r \<in> set ?df. validate_email (email r) \<in> {Inr True, Inr False}"
  proof
    fix r
    assume "r \<in> set ?df"
    with strs obtain s where "email r = PyStr s"
      by blast
    with validate_email_total [of s] show "validate_email (email r) \<in> {Inr True, Inr False}"
      by (cases "validate_email (PyStr s) = Inr True") simp_all
  qed
next
  let ?df = "frames w (self_data w)"
  assume "\<not> (\<forall>r \<in> set ?df. \<exists>s. email r = PyStr s)"
  then obtain r where "r \<in> set ?df" "\<forall>s. email r \<noteq> PyStr s"
    by blast
  then have "\<exists>v \<in> set (map email ?df). validate_email v = Inl TypeError"
    using validate_email_not_str [of "email r"] by (auto intro!: bexI [of _ r])
  moreover have "\<forall>v \<in> set (map email ?df).
      validate_email v = Inl TypeError \<or> (\<exists>y. validate_email v = Inr y)"
    using validate_email_outcome by blast
  ultimately have "series_apply validate_email (map email ?df) = Inl TypeError"
    by (rule series_apply_raises)
  then show "remove_rows_without_mail w = Inl TypeError"
    by (simp add: remove_rows_without_mail_def)
next
  show "validate_email (PyStr []) = Inr False"
    by (simp add: validate_email_def)
qed

theorem remove_rows_without_mail_strings_witness:
  "remove_rows_without_mail (one_table
      [subject_row (Some 30) (Some ''F'') ''ann@mail.com'' (Some 2) (Some 4) (Some 6) (Some 8) None,
       subject_row (Some 50) (Some ''M'') [] (Some 1) (Some 1) (Some 1) (Some 1) (Some 1),
       subject_row (Some 20) (Some ''M'') ''cyd@.com'' (Some 1) (Some 1) (Some 1) (Some 1) (Some 1)])
   = Inr ([subject_row (Some 30) (Some ''F'') ''ann@mail.com'' (Some 2) (Some 4) (Some 6) (Some 8) None],
          one_table
      [subject_row (Some 30) (Some ''F'') ''ann@mail.com'' (Some 2) (Some 4) (Some 6) (Some 8) None,
       subject_row (Some 50) (Some ''M'') [] (Some 1) (Some 1) (Some 1) (Some 1) (Some 1),
       subject_row (Some 20) (Some ''M'') ''cyd@.com'' (Some 1) (Some 1) (Some 1) (Some 1) (Some 1)])"
  using remove_rows_without_mail_strings [of "one_table
      [subject_row (Some 30) (Some ''F'') ''ann@mail.com'' (Some 2) (Some 4) (Some 6) (Some 8) None,
       subject_row (Some 50) (Some ''M'') [] (Some 1) (Some 1) (Some 1) (Some 1) (Some 1),
       subject_row (Some 20) (Some ''M'') ''cyd@.com'' (Some 1) (Some 1) (Some 1) (Some 1) (Some 1)]"]
  by (simp add: remove_rows_without_mail_def select_mask_def validate_email_def str_of_def
      AT_def DOT_def startswith_def endswith_def isascii_def py_getitem_def)

text \<open>
  A null email and a missing one (NaN) both make the validator raise, and with it the
  removal of rows, where claim C6 wants the row classified invalid and removed.
\<close>

theorem validate_email_null_counterexample:
  "validate_email PyNone = Inl TypeError
   \<and> validate_email (PyNum None) = Inl TypeError
   \<and> remove_rows_without_mail (one_table
        [subject_row (Some 30) (Some ''F'') ''ann@mail.com'' (Some 2) (Some 4) (Some 6) (Some 8) None,
         \<lparr>age = Some 50, gender = Some (str_of ''M''), email = PyNone,
          q1 = Some 1, q2 = Some 2, q3 = Some 3, q4 = Some 4, q5 = Some 5, score = NoColumn\<rparr>])
       = Inl TypeError"
  by (simp add: remove_rows_without_mail_def validate_email_def str_of_def
      AT_def DOT_def startswith_def endswith_def isascii_def py_getitem_def)

section \<open>The null locator\<close>

lemma select_mask_upt:
  "select_mask [0 ..< length bs] bs = filter (\<lambda>i. bs ! i) [0 ..< length bs]"
proof (induction bs rule: rev_induct)
  case Nil
  then show ?case by (simp add: select_mask_def)
next
  case (snoc b bs)
  have "filter (\<lambda>i. (bs @ [b]) ! i) [0 ..< length bs] = filter (\<lambda>i. bs ! i) [0 ..< length bs]"
    by (rule filter_cong) (auto simp: nth_append)
  with snoc show ?case
    by (simp add: select_mask_def)
qed

lemma find_rows_with_nulls_filter:
  "fst (find_rows_with_nulls w)
     = filter (\<lambda>i. list_ex isna (grades (frames w (self_data w) ! i)))
         [0 ..< length (frames w (self_data w))]"
proof -
  let ?df = "frames w (self_data w)"
  let ?bs = "map (list_ex isna) (map grades ?df)"
  have "fst (find_rows_with_nulls w) = select_mask [0 ..< length ?bs] ?bs"
    by (simp add: find_rows_with_nulls_def Let_def)
  also have "\<dots> = filter (\<lambda>i. ?bs ! i) [0 ..< length ?bs]"
    by (rule select_mask_upt)
  also have "\<dots> = filter (\<lambda>i. list_ex isna (grades (?df ! i))) [0 ..< length ?df]"
    by (rule filter_cong) auto
  finally show ?thesis .
qed

lemma list_ex_isna_grades:
  "list_ex isna (grades r) \<longleftrightarrow>
     q1 r = None \<or> q2 r = None \<or> q3 r = None \<or> q4 r = None \<or> q5 r = None"
  by (simp add: grades_def isna_def)

text \<open>
  Claim C7. \<open>_find_rows_with_nulls\<close> returns the row indices in strictly ascending
  order, each once, and they are exactly the rows with at least one missing value among
  \<open>q1\<close> to \<open>q5\<close>; the world, and with it the table, is the same after the call.
\<close>

theorem find_rows_with_nulls_correct:
  "sorted_wrt (<) (fst (find_rows_with_nulls w))
   \<and> distinct (fst (find_rows_with_nulls w))
   \<and> set (fst (find_rows_with_nulls w))
       = {i. i < length (frames w (self_data w))
             \<and> (q1 (frames w (self_data w) ! i) = None \<or> q2 (frames w (self_data w) ! i) = None
                \<or> q3 (frames w (self_data w) ! i) = None \<or> q4 (frames w (self_data w) ! i) = None
                \<or> q5 (frames w (self_data w) ! i) = None)}
   \<and> snd (find_rows_with_nulls w) = w"
proof -
  have "sorted_wrt (<) (fst (find_rows_with_nulls w))"
    unfolding find_rows_with_nulls_filter by (rule sorted_wrt_filter) (simp add: sorted_wrt_upt)
  moreover have "distinct (fst (find_rows_with_nulls w))"
    unfolding find_rows_with_nulls_filter by simp
  moreover have "set (fst (find_rows_with_nulls w))
       = {i. i < length (frames w (self_data w))
             \<and> (q1 (frames w (self_data w) ! i) = None \<or> q2 (frames w (self_data w) ! i) = None
                \<or> q3 (frames w (self_data w) ! i) = None \<or> q4 (frames w (self_data w) ! i) = None
                \<or> q5 (frames w (self_data w) ! i) = None)}"
    unfolding find_rows_with_nulls_filter by (auto simp: list_ex_isna_grades)
  moreover have "snd (find_rows_with_nulls w) = w"
    by (simp add: find_rows_with_nulls_def Let_def)
  ultimately show ?thesis by blast
qed

theorem find_rows_with_nulls_correct_witness:
  "fst (find_rows_with_nulls (one_table
      [subject_row (Some 30) (Some ''F'') ''ann@mail.com'' (Some 2) (Some 4) (Some 6) (Some 8) (Some 1),
       subject_row (Some 50) (Some ''M'') ''bob@mail.com'' (Some 2) None (Some 6) (Some 8) (Some 1),
       subject_row (Some 20) (Some ''M'') ''cyd@mail.com'' (Some 2) (Some 4) (Some 6) (Some 8) (Some 1),
       subject_row None None [] None None None None None]))
    = [1, 3]"
  using find_rows_with_nulls_correct [of "one_table
      [subject_row (Some 30) (Some ''F'') ''ann@mail.com'' (Some 2) (Some 4) (Some 6) (Some 8) (Some 1),
       subject_row (Some 50) (Some ''M'') ''bob@mail.com'' (Some 2) None (Some 6) (Some 8) (Some 1),
       subject_row (Some 20) (Some ''M'') ''cyd@mail.com'' (Some 2) (Some 4) (Some 6) (Some 8) (Some 1),
       subject_row None None [] None None None None None]"]
  by (simp add: find_rows_with_nulls_filter grades_def isna_def upt_rec)

section \<open>The imputer\<close>

lemma where_row_replicate:
  "where_row xs (map p xs) (replicate (length xs) m) = map (\<lambda>x. if p x then x else m) xs"
  by (induction xs) (auto simp: where_row_def)

lemma length_grades: "length (grades r) = 5"
  by (simp add: grades_def)

lemma where_row_grades:
  "where_row (grades r) (map notnull (grades r)) (replicate 5 m)
     = map (\<lambda>c. if notnull c then c else m) (grades r)"
  using where_row_replicate [of "grades r" notnull m] by (simp add: length_grades)

lemma df_where_grades:
  "df_where (map grades df) (map (map notnull) (map grades df))
       (map (replicate 5) (map nanmean (map grades df)))
     = map (\<lambda>r. map (\<lambda>c. if notnull c then c else nanmean (grades r)) (grades r)) df"
  by (induction df) (auto simp: df_where_def where_row_grades)

text \<open>Row by row: a cell that is there stays, a missing one takes the mean of its row.\<close>

lemma fill_na_with_mean_inner_rows:
  "fst (fill_na_with_mean_inner w)
     = map (\<lambda>r. map (\<lambda>c. if notnull c then c else nanmean (grades r)) (grades r))
         (frames w (self_data w))"
  by (simp only: fill_na_with_mean_inner_def Let_def fst_conv df_where_grades)

lemma present_empty_iff: "present cs = [] \<longleftrightarrow> (\<forall>c \<in> set cs. c = None)"
  by (induction cs rule: present.induct) auto

text \<open>
  Claim C3. In each row of the result of \<open>_fill_na_with_mean\<close>, a question cell that
  was not missing is unchanged, and a missing one holds the mean of the row's values
  that are not missing (their sum over their number); in a row with all five missing
  that mean is undefined and all five cells stay missing. The result has the rows of the
  table, five cells each.
\<close>

theorem fill_na_with_mean_inner_correct:
  assumes "i < length (frames w (self_data w))"
  shows "length (fst (fill_na_with_mean_inner w)) = length (frames w (self_data w))
    \<and> length (fst (fill_na_with_mean_inner w) ! i) = 5
    \<and> (\<forall>k < 5.
          (case grades (frames w (self_data w) ! i) ! k of
             Some v \<Rightarrow> fst (fill_na_with_mean_inner w) ! i ! k = Some v
           | None \<Rightarrow>
               fst (fill_na_with_mean_inner w) ! i ! k =
                 (if \<forall>c \<in> set (grades (frames w (self_data w) ! i)). c = None then None
                  else Some (sum_list (present (grades (frames w (self_data w) ! i)))
                             / of_nat (length (present (grades (frames w (self_data w) ! i))))))))
    \<and> ((\<forall>c \<in> set (grades (frames w (self_data w) ! i)). c = None)
         \<longrightarrow> fst (fill_na_with_mean_inner w) ! i = [None, None, None, None, None])"
proof -
  define r where "r = frames w (self_data w) ! i"
  define g where "g = fst (fill_na_with_mean_inner w) ! i"
  have g: "g = map (\<lambda>c. if notnull c then c else nanmean (grades r)) (grades r)"
    using assms by (simp add: g_def r_def fill_na_with_mean_inner_rows)
  have mean: "nanmean (grades r) =
      (if \<forall>c \<in> set (grades r). c = None then None
       else Some (sum_list (present (grades r)) / of_nat (length (present (grades r)))))"
    by (simp add: nanmean_def Let_def present_empty_iff)
  have len: "length g = 5"
    by (simp add: g length_grades)
  have cells: "case grades r ! k of Some v \<Rightarrow> g ! k = Some v | None \<Rightarrow> g ! k = nanmean (grades r)"
    if "k < 5" for k
    using that by (simp add: g length_grades notnull_def split: option.splits)
  have allna: "g = [None, None, None, None, None]" if "\<forall>c \<in> set (grades r). c = None"
  proof -
    from that have "nanmean (grades r) = None"
      by (simp add: mean)
    with that show ?thesis
      by (simp add: g grades_def notnull_def)
  qed
  have "length (fst (fill_na_with_mean_inner w)) = length (frames w (self_data w))"
    by (simp add: fill_na_with_mean_inner_rows)
  with len cells allna show ?thesis
    unfolding g_def r_def mean [unfolded r_def] by blast
qed

theorem fill_na_with_mean_inner_correct_witness:
  "fst (fill_na_with_mean_inner (one_table
      [subject_row (Some 30) (Some ''F'') ''ann@mail.com'' (Some 2) (Some 4) (Some 6) (Some 8) None,
       subject_row (Some 50) (Some ''M'') ''bob@mail.com'' None None None None None]))
    = [[Some 2, Some 4, Some 6, Some 8, Some 5], [None, None, None, None, None]]"
  using fill_na_with_mean_inner_correct [of 0 "one_table
      [subject_row (Some 30) (Some ''F'') ''ann@mail.com'' (Some 2) (Some 4) (Some 6) (Some 8) None,
       subject_row (Some 50) (Some ''M'') ''bob@mail.com'' None None None None None]"]
  by (simp add: fill_na_with_mean_inner_rows grades_def nanmean_def notnull_def)

lemma set_grades_grades:
  assumes "length g = 5"
  shows "grades (set_grades r g) = g"
proof -
  from assms obtain a b c d e where "g = [a, b, c, d, e]"
    by (auto simp: length_Suc_conv eval_nat_numeral)
  then show ?thesis
    by (simp add: set_grades_def grades_def)
qed

lemma fill_row_no_missing:
  "present (grades r) \<noteq> [] \<Longrightarrow>
   None \<notin> set (map (\<lambda>c. if notnull c then c else nanmean (grades r)) (grades r))"
  by (auto simp: nanmean_def Let_def notnull_def)

lemma fill_row_fixed:
  assumes "None \<notin> set g"
  shows "map (\<lambda>c. if notnull c then c else m) g = g"
  using assms by (induction g) (auto simp: notnull_def)

text \<open>
  Claim C9. Imputing twice gives what imputing once gives, when no row has all five
  of \<open>q1\<close> to \<open>q5\<close> missing: the result of \<open>_fill_na_with_mean\<close> is written to the
  question columns of \<open>self.data\<close> and the method runs again; the second result is the
  first, and the first has no missing cell left.
\<close>

theorem fill_na_with_mean_inner_idempotent:
  assumes "\<forall>r \<in> set (frames w (self_data w)). \<not> (\<forall>c \<in> set (grades r). c = None)"
  shows "fst (fill_na_with_mean_inner
                (loc_set_grades w (self_data w) (fst (fill_na_with_mean_inner w))))
           = fst (fill_na_with_mean_inner w)
       \<and> (\<forall>g \<in> set (fst (fill_na_with_mean_inner w)). None \<notin> set g)"
proof -
  let ?df = "frames w (self_data w)"
  let ?fill = "\<lambda>r. map (\<lambda>c. if notnull c then c else nanmean (grades r)) (grades r)"
  have nomiss: "None \<notin> set (?fill r)" if "r \<in> set ?df" for r
    using that assms by (intro fill_row_no_missing) (simp add: present_empty_iff)
  have sd: "self_data (loc_set_grades w (self_data w) other) = self_data w" for other
    by (simp add: loc_set_grades_def)
  have new: "frames (loc_set_grades w (self_data w) (map ?fill ?df)) (self_data w)
               = map (\<lambda>r. set_grades r (?fill r)) ?df"
    by (simp add: loc_set_grades_def zip_map2 zip_same_conv_map)
  have step: "?fill (set_grades r (?fill r)) = ?fill r" if "r \<in> set ?df" for r
  proof -
    have "grades (set_grades r (?fill r)) = ?fill r"
      by (rule set_grades_grades) (simp add: length_grades)
    moreover have "map (\<lambda>c. if notnull c then c else m) (?fill r) = ?fill r" for m
      using nomiss [OF that] by (rule fill_row_fixed)
    ultimately show ?thesis by (simp only:)
  qed
  have "fst (fill_na_with_mean_inner (loc_set_grades w (self_data w) (map ?fill ?df)))
          = map ?fill (map (\<lambda>r. set_grades r (?fill r)) ?df)"
    by (simp only: fill_na_with_mean_inner_rows sd new)
  also have "\<dots> = map ?fill ?df"
    using step by (simp add: comp_def)
  finally have twice:
    "fst (fill_na_with_mean_inner (loc_set_grades w (self_data w) (map ?fill ?df)))
          = map ?fill ?df" .
  show ?thesis
    using twice nomiss by (auto simp only: fill_na_with_mean_inner_rows set_map)
qed

theorem fill_na_with_mean_inner_idempotent_witness:
  "fst (fill_na_with_mean_inner (loc_set_grades
      (one_table [subject_row (Some 30) (Some ''F'') ''ann@mail.com'' (Some 2) (Some 4) (Some 6) (Some 8) None])
      0
      (fst (fill_na_with_mean_inner
         (one_table [subject_row (Some 30) (Some ''F'') ''ann@mail.com'' (Some 2) (Some 4) (Some 6) (Some 8) None])))))
    = [[Some 2, Some 4, Some 6, Some 8, Some 5]]
   \<and> fst (fill_na_with_mean_inner
         (one_table [subject_row (Some 30) (Some ''F'') ''ann@mail.com'' (Some 2) (Some 4) (Some 6) (Some 8) None]))
    = [[Some 2, Some 4, Some 6, Some 8, Some 5]]"
proof -
  let ?w = "one_table
    [subject_row (Some 30) (Some ''F'') ''ann@mail.com'' (Some 2) (Some 4) (Some 6) (Some 8) None]"
  have h: "\<forall>r \<in> set (frames ?w (self_data ?w)). \<not> (\<forall>c \<in> set (grades r). c = None)"
    by (simp add: grades_def)
  have once: "fst (fill_na_with_mean_inner ?w) = [[Some 2, Some 4, Some 6, Some 8, Some 5]]"
    by (simp add: fill_na_with_mean_inner_rows grades_def nanmean_def notnull_def)
  from fill_na_with_mean_inner_idempotent [OF h] once show ?thesis
    by simp
qed

section \<open>The combined operation and the copy\<close>

lemma fill_na_with_mean_unfold:
  "fill_na_with_mean w =
     ((next_ref w, fst (find_rows_with_nulls w)),
      loc_set_grades (snd (df_copy w (self_data w))) (next_ref w) (fst (fill_na_with_mean_inner w)))"
  by (simp add: fill_na_with_mean_def find_rows_with_nulls_def fill_na_with_mean_inner_def
      df_copy_def Let_def)

lemma set_grades_other:
  "age (set_grades r g) = age r \<and> gender (set_grades r g) = gender r
   \<and> email (set_grades r g) = email r \<and> score (set_grades r g) = score r"
  by (simp add: set_grades_def split: list.splits)

text \<open>
  Claim C8. In a world where \<open>self.data\<close> is an object in use, \<open>fill_na_with_mean\<close>
  returns a table and the null-row indices. The table is a new object, not the one
  behind \<open>self.data\<close>; every object that existed, the table of \<open>self.data\<close> among them, is
  as it was, and \<open>self.data\<close> still refers to it. The new table has the rows of the old
  one in order, equal to them in \<open>age\<close>, \<open>gender\<close>, \<open>email\<close> and \<open>score\<close>, with the
  imputed values in \<open>q1\<close> to \<open>q5\<close>; the indices are those the null locator gives on the
  table before the imputation.
\<close>

theorem fill_na_with_mean_frame:
  assumes "self_data w < next_ref w"
  shows "fst (fst (fill_na_with_mean w)) \<noteq> self_data w
   \<and> self_data (snd (fill_na_with_mean w)) = self_data w
   \<and> (\<forall>r < next_ref w. frames (snd (fill_na_with_mean w)) r = frames w r)
   \<and> length (frames (snd (fill_na_with_mean w)) (fst (fst (fill_na_with_mean w))))
       = length (frames w (self_data w))
   \<and> (\<forall>i < length (frames w (self_data w)).
         age (frames (snd (fill_na_with_mean w)) (fst (fst (fill_na_with_mean w))) ! i)
           = age (frames w (self_data w) ! i)
       \<and> gender (frames (snd (fill_na_with_mean w)) (fst (fst (fill_na_with_mean w))) ! i)
           = gender (frames w (self_data w) ! i)
       \<and> email (frames (snd (fill_na_with_mean w)) (fst (fst (fill_na_with_mean w))) ! i)
           = email (frames w (self_data w) ! i)
       \<and> score (frames (snd (fill_na_with_mean w)) (fst (fst (fill_na_with_mean w))) ! i)
           = score (frames w (self_data w) ! i))
   \<and> map grades (frames (snd (fill_na_with_mean w)) (fst (fst (fill_na_with_mean w))))
       = fst (fill_na_with_mean_inner w)
   \<and> snd (fst (fill_na_with_mean w)) = fst (find_rows_with_nulls w)"
proof -
  let ?df = "frames w (self_data w)"
  let ?fill = "\<lambda>r. map (\<lambda>c. if notnull c then c else nanmean (grades r)) (grades r)"
  let ?w' = "snd (fill_na_with_mean w)"
  let ?u = "fst (fst (fill_na_with_mean w))"
  have u: "?u = next_ref w"
    by (simp add: fill_na_with_mean_unfold)
  have new: "frames ?w' ?u = map (\<lambda>r. set_grades r (?fill r)) ?df"
    by (simp add: fill_na_with_mean_unfold loc_set_grades_def df_copy_def
        fill_na_with_mean_inner_rows zip_map2 zip_same_conv_map)
  have old: "frames ?w' r = frames w r" if "r < next_ref w" for r
    using that by (simp add: fill_na_with_mean_unfold loc_set_grades_def df_copy_def)
  have sd: "self_data ?w' = self_data w"
    by (simp add: fill_na_with_mean_unfold loc_set_grades_def df_copy_def)
  have g: "map grades (frames ?w' ?u) = fst (fill_na_with_mean_inner w)"
    by (simp add: new fill_na_with_mean_inner_rows comp_def set_grades_grades length_grades)
  have idx: "snd (fst (fill_na_with_mean w)) = fst (find_rows_with_nulls w)"
    by (simp add: fill_na_with_mean_unfold)
  from assms u have "?u \<noteq> self_data w"
    by simp
  with sd old g idx show ?thesis
    by (simp add: new set_grades_other)
qed

theorem fill_na_with_mean_frame_witness:
  "fill_na_with_mean (one_table
      [subject_row (Some 30) (Some ''F'') ''ann@mail.com'' (Some 2) (Some 4) (Some 6) (Some 8) None,
       subject_row (Some 50) (Some ''M'') ''bob@mail.com'' (Some 1) (Some 1) (Some 1) (Some 1) (Some 1)])
   = ((1, [0]),
      \<lparr>frames = (\<lambda>_. [])
         (0 := [subject_row (Some 30) (Some ''F'') ''ann@mail.com'' (Some 2) (Some 4) (Some 6) (Some 8) None,
                subject_row (Some 50) (Some ''M'') ''bob@mail.com'' (Some 1) (Some 1) (Some 1) (Some 1) (Some 1)],
          1 := [subject_row (Some 30) (Some ''F'') ''ann@mail.com'' (Some 2) (Some 4) (Some 6) (Some 8) (Some 5),
                subject_row (Some 50) (Some ''M'') ''bob@mail.com'' (Some 1) (Some 1) (Some 1) (Some 1) (Some 1)]),
       next_ref = 2, self_data = 0\<rparr>)"
proof -
  let ?w = "one_table
      [subject_row (Some 30) (Some ''F'') ''ann@mail.com'' (Some 2) (Some 4) (Some 6) (Some 8) None,
       subject_row (Some 50) (Some ''M'') ''bob@mail.com'' (Some 1) (Some 1) (Some 1) (Some 1) (Some 1)]"
  have h: "self_data ?w < next_ref ?w"
    by simp
  from fill_na_with_mean_frame [OF h] show ?thesis
    by (simp add: fill_na_with_mean_unfold find_rows_with_nulls_filter fill_na_with_mean_inner_rows
        loc_set_grades_def df_copy_def set_grades_def grades_def nanmean_def notnull_def isna_def upt_rec)
qed

section \<open>The scorer\<close>

lemma present_all_Some: "\<forall>x \<in> set xs. x \<noteq> None \<Longrightarrow> present xs = map the xs"
  by (induction xs rule: present.induct) auto

lemma c_trunc_nonneg: "0 \<le> v \<Longrightarrow> c_trunc v = \<lfloor>v\<rfloor>"
  by (simp add: c_trunc_def)

text \<open>A mean from 0 up to, but not including, 256 is stored as its floor.\<close>

lemma uint8_floor:
  assumes "0 \<le> v" and "v < 256"
  shows "uint (word_of_int \<lfloor>v\<rfloor> :: 8 word) = \<lfloor>v\<rfloor>"
proof -
  from assms have "0 \<le> \<lfloor>v\<rfloor>" and "\<lfloor>v\<rfloor> < 2 ^ 8"
    by (simp_all add: floor_less_iff)
  then show ?thesis
    by (simp add: uint_word_of_int_eq take_bit_int_eq_self)
qed

lemma astype_uint8_nonneg:
  assumes "\<forall>x \<in> set xs. \<exists>v. x = Some v \<and> 0 \<le> v"
  shows "astype_uint8 xs = Inr (map (\<lambda>x. word_of_int \<lfloor>the x\<rfloor>) xs)"
proof -
  from assms have p: "present xs = map the xs"
    by (intro present_all_Some) auto
  from assms have "\<not> list_ex isna xs"
    by (auto simp: list_ex_iff isna_def)
  moreover from assms have "\<not> list_ex (\<lambda>v. v < 0) (map the xs)"
    by (fastforce simp: list_ex_iff)
  moreover from assms have "map (\<lambda>v. word_of_int (c_trunc v) :: 8 word) (map the xs)
      = map (\<lambda>x. word_of_int \<lfloor>the x\<rfloor>) xs"
    by (auto simp: c_trunc_nonneg)
  ultimately show ?thesis
    by (simp add: astype_uint8_def p)
qed

lemma score_rows:
  "map (\<lambda>(row, b). if b then row\<lparr>score := NA\<rparr> else row)
     (zip (map (\<lambda>(row, v). row\<lparr>score := UInt8 v\<rparr>) (zip df (map K df))) (map M (map grades df)))
   = map (\<lambda>r. r\<lparr>score := if M (grades r) then NA else UInt8 (K r)\<rparr>) df"
  by (induction df) auto

text \<open>
  What the scorer does when it does not raise. If every row has a value among \<open>q1\<close> to
  \<open>q5\<close> and no row mean is negative, each row gets the floor of its mean, as an
  unsigned 8-bit value, and a row with more missing values than the threshold gets
  \<open>pd.NA\<close> instead; the table of \<open>self.data\<close> is changed in place and returned.
\<close>

lemma score_subjects_values:
  assumes "\<forall>r \<in> set (frames w (self_data w)). \<exists>v. nanmean (grades r) = Some v \<and> 0 \<le> v"
  shows "score_subjects m w =
    Inr (self_data w,
         w\<lparr>frames := (frames w)(self_data w :=
              map (\<lambda>r. r\<lparr>score := if m < int (length (filter isna (grades r))) then NA
                                  else UInt8 (word_of_int \<lfloor>the (nanmean (grades r))\<rfloor>)\<rparr>)
                (frames w (self_data w)))\<rparr>)"
proof -
  let ?df = "frames w (self_data w)"
  from assms have "astype_uint8 (map nanmean (map grades ?df))
      = Inr (map (\<lambda>x. word_of_int \<lfloor>the x\<rfloor>) (map nanmean (map grades ?df)))"
    by (intro astype_uint8_nonneg) auto
  then have cast: "astype_uint8 (map nanmean (map grades ?df))
      = Inr (map (\<lambda>r. word_of_int \<lfloor>the (nanmean (grades r))\<rfloor>) ?df)"
    by (simp add: comp_def)
  show ?thesis
    unfolding score_subjects_def Let_def cast
    by (simp only: sum.case score_rows) simp
qed

text \<open>
  One row with all five of \<open>q1\<close> to \<open>q5\<close> missing makes the scorer raise, whatever the
  threshold and whatever the other rows hold: the mean of that row is NaN, and the cast
  to \<open>uint8\<close> refuses it before any score is stored.
\<close>

lemma score_subjects_raises:
  assumes "\<exists>r \<in> set (frames w (self_data w)). \<forall>c \<in> set (grades r). c = None"
  shows "score_subjects m w = Inl IntCastingNaNError"
proof -
  from assms obtain r where r: "r \<in> set (frames w (self_data w))" and "present (grades r) = []"
    by (auto simp: present_empty_iff)
  then have "nanmean (grades r) = None"
    by (simp add: nanmean_def)
  with r have "list_ex isna (map nanmean (map grades (frames w (self_data w))))"
    by (auto simp: list_ex_iff isna_def intro: rev_image_eqI)
  then show ?thesis
    unfolding score_subjects_def Let_def astype_uint8_def by simp
qed

text \<open>
  Claim C2, at the input where the code leaves it. The row \<open>[2, 4, 6, 8, NA]\<close> with the
  threshold 1 gets the score 5 and is not masked, as the claim says. A table that also
  has a row with all five values missing should get the missing marker in that row
  (5 missing values are more than 1); the code raises \<open>IntCastingNaNError\<close> and scores
  no row.
\<close>

theorem score_subjects_all_missing_row:
  "score_subjects 1 (one_table
      [subject_row (Some 30) (Some ''F'') ''ann@mail.com'' (Some 2) (Some 4) (Some 6) (Some 8) None])
    = Inr (0, one_table
      [(subject_row (Some 30) (Some ''F'') ''ann@mail.com'' (Some 2) (Some 4) (Some 6) (Some 8) None)
         \<lparr>score := UInt8 5\<rparr>])
   \<and> score_subjects 1 (one_table
      [subject_row (Some 30) (Some ''F'') ''ann@mail.com'' (Some 2) (Some 4) (Some 6) (Some 8) None,
       subject_row (Some 50) (Some ''M'') ''bob@mail.com'' None None None None None])
    = Inl IntCastingNaNError"
  by (simp add: score_subjects_def grades_def nanmean_def astype_uint8_def isna_def c_trunc_def)

text \<open>
  Claim C5, at the input where the code leaves it. With the threshold 5 a row with
  four missing values keeps its numeric score, so the threshold rule masks nothing. A
  row with all five values missing should come out with the missing marker and the call
  should not fail; the code raises \<open>IntCastingNaNError\<close>.
\<close>

theorem score_subjects_threshold_five_all_missing:
  "score_subjects 5 (one_table
      [subject_row (Some 30) (Some ''F'') ''ann@mail.com'' (Some 7) None None None None])
    = Inr (0, one_table
      [(subject_row (Some 30) (Some ''F'') ''ann@mail.com'' (Some 7) None None None None)
         \<lparr>score := UInt8 7\<rparr>])
   \<and> score_subjects 5 (one_table
      [subject_row (Some 50) (Some ''M'') ''bob@mail.com'' None None None None None])
    = Inl IntCastingNaNError"
  by (simp add: score_subjects_def grades_def nanmean_def astype_uint8_def isna_def c_trunc_def)

section \<open>The aggregator\<close>

lemma set_present: "set (present cs) = {v. Some v \<in> set cs}"
  by (induction cs rule: present.induct) auto

lemma present_Cons:
  "present (c # cs) = (case c of None \<Rightarrow> present cs | Some v \<Rightarrow> v # present cs)"
  by (cases c) auto

lemma present_map_filter:
  "present (map f (filter P xs)) = present (map f xs)" if "\<And>x. \<not> P x \<Longrightarrow> f x = None"
  using that by (induction xs) (auto simp: present_Cons split: option.splits)

lemma filter_filter_absorb:
  "filter Q (filter P xs) = filter Q xs" if "\<And>x. Q x \<Longrightarrow> P x"
  using that by (induction xs) auto

lemma correlate_gender_age_world: "snd (correlate_gender_age w) = w"
  by (simp add: correlate_gender_age_def Let_def)

lemma correlate_gender_age_keys:
  "map fst (fst (correlate_gender_age w))
     = sort (remdups (present (map group_key
         (filter (\<lambda>r. \<not> isna (age r)) (frames w (self_data w))))))"
  by (simp add: correlate_gender_age_def Let_def comp_def)

lemma group_key_Some:
  "group_key r = Some k \<longleftrightarrow> gender r = Some (fst k) \<and> over_40 (age r) = snd k"
  by (cases k) (auto simp: group_key_def split: option.splits)

lemma over_40_present: "\<not> isna a \<and> over_40 a = b \<longleftrightarrow> (\<exists>x. a = Some x \<and> (40 < x) = b)"
  by (cases a) (auto simp: isna_def over_40_def)

text \<open>A row is in the bucket \<open>k\<close> exactly when it has the gender and the age for it.\<close>

lemma in_bucket_iff:
  "(\<not> isna (age r) \<and> group_key r = Some k)
     = (gender r = Some (fst k) \<and> (\<exists>a. age r = Some a \<and> (40 < a) = snd k))"
  using over_40_present [of "age r" "snd k"] by (auto simp: group_key_Some)

lemma bucket_rows:
  "filter (\<lambda>r. group_key r = Some k) (filter (\<lambda>r. \<not> isna (age r)) df)
     = filter (\<lambda>r. gender r = Some (fst k) \<and> (\<exists>a. age r = Some a \<and> (40 < a) = snd k)) df"
  by (simp only: filter_filter in_bucket_iff)

lemma correlate_gender_age_key_set:
  "set (map fst (fst (correlate_gender_age w)))
     = {(g, 40 < a) | g a. \<exists>r \<in> set (frames w (self_data w)). gender r = Some g \<and> age r = Some a}"
proof -
  have "set (map fst (fst (correlate_gender_age w)))
      = {k. \<exists>r \<in> set (frames w (self_data w)). \<not> isna (age r) \<and> group_key r = Some k}"
    unfolding correlate_gender_age_keys by (auto simp: set_present image_iff)
  also have "\<dots> = {k. \<exists>r \<in> set (frames w (self_data w)).
        gender r = Some (fst k) \<and> (\<exists>a. age r = Some a \<and> (40 < a) = snd k)}"
    by (simp only: in_bucket_iff)
  also have "\<dots> = {(g, 40 < a) | g a.
        \<exists>r \<in> set (frames w (self_data w)). gender r = Some g \<and> age r = Some a}"
  proof (rule set_eqI)
    fix k :: "pystr \<times> bool"
    obtain g b where k: "k = (g, b)"
      by (cases k)
    show "k \<in> {k. \<exists>r \<in> set (frames w (self_data w)).
            gender r = Some (fst k) \<and> (\<exists>a. age r = Some a \<and> (40 < a) = snd k)}
      \<longleftrightarrow> k \<in> {(g, 40 < a) | g a.
            \<exists>r \<in> set (frames w (self_data w)). gender r = Some g \<and> age r = Some a}"
      unfolding k by auto
  qed
  finally show ?thesis .
qed

lemma correlate_gender_age_rows:
  assumes "(k, ms) \<in> set (fst (correlate_gender_age w))"
  shows "ms = map (\<lambda>col. nanmean (map col
            (filter (\<lambda>r. gender r = Some (fst k) \<and> (\<exists>a. age r = Some a \<and> (40 < a) = snd k))
               (frames w (self_data w)))))
          [q1, q2, q3, q4, q5]"
proof -
  from assms have "ms = group_means (filter (\<lambda>r. \<not> isna (age r)) (frames w (self_data w))) k"
    by (auto simp: correlate_gender_age_def Let_def)
  then show ?thesis
    by (simp only: group_means_def bucket_rows)
qed

text \<open>
  Claim C4, as the code has it. \<open>correlate_gender_age\<close> leaves the world as it was.
  Its result has one row per key, the keys in ascending order, and the keys are exactly
  the pairs of a gender and \<open>age > 40\<close> of the rows that have both a gender and an age:
  a row with a missing age or a missing gender is in no bucket, and a pair no row has
  is not there. The row of a key holds, for each of \<open>q1\<close> to \<open>q5\<close>, the mean of the
  values that are not missing over the rows of that bucket.
\<close>

theorem correlate_gender_age_buckets:
  "snd (correlate_gender_age w) = w
   \<and> distinct (map fst (fst (correlate_gender_age w)))
   \<and> sorted (map fst (fst (correlate_gender_age w)))
   \<and> set (map fst (fst (correlate_gender_age w)))
       = {(g, 40 < a) | g a. \<exists>r \<in> set (frames w (self_data w)). gender r = Some g \<and> age r = Some a}
   \<and> (\<forall>(k, ms) \<in> set (fst (correlate_gender_age w)).
         ms = map (\<lambda>col. nanmean (map col
                (filter (\<lambda>r. gender r = Some (fst k) \<and> (\<exists>a. age r = Some a \<and> (40 < a) = snd k))
                   (frames w (self_data w)))))
              [q1, q2, q3, q4, q5])"
proof -
  have "distinct (map fst (fst (correlate_gender_age w)))"
    by (simp add: correlate_gender_age_keys)
  moreover have "sorted (map fst (fst (correlate_gender_age w)))"
    by (simp add: correlate_gender_age_keys)
  ultimately show ?thesis
    using correlate_gender_age_world [of w] correlate_gender_age_key_set [of w]
      correlate_gender_age_rows [of _ _ w]
    by blast
qed

theorem correlate_gender_age_buckets_witness:
  "fst (correlate_gender_age (one_table
      [subject_row (Some 30) (Some ''F'') ''ann@mail.com'' (Some 10) (Some 4) (Some 6) (Some 8) None,
       subject_row (Some 50) (Some ''F'') ''bea@mail.com'' (Some 20) (Some 1) (Some 1) (Some 1) (Some 1),
       subject_row None (Some ''F'') ''cyd@mail.com'' (Some 90) (Some 1) (Some 1) (Some 1) (Some 1)]))
    = [((str_of ''F'', False), [Some 10, Some 4, Some 6, Some 8, None]),
       ((str_of ''F'', True), [Some 20, Some 1, Some 1, Some 1, Some 1])]"
  using correlate_gender_age_buckets [of "one_table
      [subject_row (Some 30) (Some ''F'') ''ann@mail.com'' (Some 10) (Some 4) (Some 6) (Some 8) None,
       subject_row (Some 50) (Some ''F'') ''bea@mail.com'' (Some 20) (Some 1) (Some 1) (Some 1) (Some 1),
       subject_row None (Some ''F'') ''cyd@mail.com'' (Some 90) (Some 1) (Some 1) (Some 1) (Some 1)]"]
  by (simp add: correlate_gender_age_def group_means_def group_key_def over_40_def isna_def
      nanmean_def str_of_def)

text \<open>
  A row with an age and no gender: in the words of claim C4 it is not left out and
  makes a bucket of its own; the code returns no bucket at all.
\<close>

theorem correlate_gender_age_counterexample:
  "buckets_spec [subject_row (Some 30) None ''ann@mail.com'' (Some 10) (Some 4) (Some 6) (Some 8) (Some 2)]
     = [(None, False)]
   \<and> fst (correlate_gender_age (one_table
        [subject_row (Some 30) None ''ann@mail.com'' (Some 10) (Some 4) (Some 6) (Some 8) (Some 2)]))
     = []"
  by (simp add: buckets_spec_def correlate_gender_age_def group_means_def group_key_def
      over_40_def isna_def)

text \<open>
  Claim C10. A row whose gender is missing takes no part in the aggregation, also when
  its age is there: the result is the one of the table without those rows, and every
  key of the result is the gender of a row that has an age.
\<close>

theorem correlate_gender_age_drops_missing_gender:
  "fst (correlate_gender_age
          (w\<lparr>frames := (frames w)(self_data w :=
                filter (\<lambda>r. gender r \<noteq> None) (frames w (self_data w)))\<rparr>))
     = fst (correlate_gender_age w)
   \<and> (\<forall>k \<in> set (map fst (fst (correlate_gender_age w))).
         \<exists>r \<in> set (frames w (self_data w)). gender r = Some (fst k) \<and> age r \<noteq> None)"
proof -
  let ?df = "frames w (self_data w)"
  let ?A = "\<lambda>r. \<not> isna (age r)"
  let ?G = "\<lambda>r. gender r \<noteq> None"
  have swap: "filter ?A (filter ?G ?df) = filter ?G (filter ?A ?df)"
    by (simp add: conj_commute)
  have keys: "present (map group_key (filter ?G (filter ?A ?df)))
                = present (map group_key (filter ?A ?df))"
    by (rule present_map_filter) (simp add: group_key_def)
  have rows: "filter (\<lambda>r. group_key r = Some k) (filter ?G (filter ?A ?df))
                = filter (\<lambda>r. group_key r = Some k) (filter ?A ?df)" for k
    by (rule filter_filter_absorb) (auto simp: group_key_def split: option.splits)
  have "fst (correlate_gender_age (w\<lparr>frames := (frames w)(self_data w := filter ?G ?df)\<rparr>))
     = map (\<lambda>k. (k, group_means (filter ?A (filter ?G ?df)) k))
         (sort (remdups (present (map group_key (filter ?A (filter ?G ?df))))))"
    by (simp add: correlate_gender_age_def Let_def del: filter_filter)
  also have "\<dots> = map (\<lambda>k. (k, group_means (filter ?A ?df) k))
         (sort (remdups (present (map group_key (filter ?A ?df)))))"
    by (simp only: swap keys group_means_def rows)
  also have "\<dots> = fst (correlate_gender_age w)"
    by (simp add: correlate_gender_age_def Let_def)
  finally have same:
    "fst (correlate_gender_age (w\<lparr>frames := (frames w)(self_data w := filter ?G ?df)\<rparr>))
     = fst (correlate_gender_age w)" .
  have "\<exists>r \<in> set ?df. gender r = Some (fst k) \<and> age r \<noteq> None"
    if "k \<in> set (map fst (fst (correlate_gender_age w)))" for k
    using that unfolding correlate_gender_age_key_set by auto
  with same show ?thesis
    by blast
qed

theorem correlate_gender_age_drops_missing_gender_witness:
  "fst (correlate_gender_age (one_table
      [subject_row (Some 30) None ''ann@mail.com'' (Some 10) (Some 4) (Some 6) (Some 8) None,
       subject_row (Some 50) (Some ''M'') ''bob@mail.com'' (Some 20) (Some 1) (Some 1) (Some 1) (Some 1)]))
    = [((str_of ''M'', True), [Some 20, Some 1, Some 1, Some 1, Some 1])]
   \<and> fst (correlate_gender_age (one_table
      [subject_row (Some 50) (Some ''M'') ''bob@mail.com'' (Some 20) (Some 1) (Some 1) (Some 1) (Some 1)]))
    = [((str_of ''M'', True), [Some 20, Some 1, Some 1, Some 1, Some 1])]"
  using correlate_gender_age_drops_missing_gender [of "one_table
      [subject_row (Some 30) None ''ann@mail.com'' (Some 10) (Some 4) (Some 6) (Some 8) None,
       subject_row (Some 50) (Some ''M'') ''bob@mail.com'' (Some 20) (Some 1) (Some 1) (Some 1) (Some 1)]"]
  by (simp add: correlate_gender_age_def group_means_def group_key_def over_40_def isna_def
      nanmean_def str_of_def)

end
